theory Spec2Isabelle
  imports Main "HOL-Library.Char_ord" "HOL-Library.List_Lexorder" "HOL-Library.Sublist"
    "HOL-Library.Multiset"
begin

section \<open>Strings\<close>

text \<open>
  A Python \<open>str\<close> is modelled as a \<open>string\<close> whose characters are the code points
  below 256. The order on strings is the lexicographic order on code points, which is the
  order Python compares strings by.
\<close>

definition isspace :: "char \<Rightarrow> bool" where
  \<comment> \<open>The characters \<open>str.split()\<close> treats as whitespace, among the code points below 256.\<close>
  "isspace c = (let n = (of_char c :: nat)
                in (9 \<le> n \<and> n \<le> 13) \<or> (28 \<le> n \<and> n \<le> 32) \<or> n = 133 \<or> n = 160)"

fun split_max :: "nat \<Rightarrow> string \<Rightarrow> string list" where
  \<comment> \<open>\<open>s.split(maxsplit=n)\<close>: at most \<open>n\<close> splits at runs of whitespace; what is left after
      the last split is kept whole, without its leading whitespace.\<close>
  "split_max 0 s = (let r = dropWhile isspace s in if r = [] then [] else [r])"
| "split_max (Suc k) s =
     (let r = dropWhile isspace s
      in if r = [] then []
         else takeWhile (\<lambda>c. \<not> isspace c) r # split_max k (dropWhile (\<lambda>c. \<not> isspace c) r))"

definition int_space :: "char \<Rightarrow> bool" where
  \<comment> \<open>The whitespace \<open>int()\<close> skips around a literal, among the code points below 256.
      Unlike \<open>str.split()\<close> it does not skip the separators 28 to 31.\<close>
  "int_space c = (let n = (of_char c :: nat)
                  in (9 \<le> n \<and> n \<le> 13) \<or> n = 32 \<or> n = 133 \<or> n = 160)"

definition strip :: "string \<Rightarrow> string" where
  "strip s = rev (dropWhile int_space (rev (dropWhile int_space s)))"

definition is_ascii_digit :: "char \<Rightarrow> bool" where
  "is_ascii_digit c = (let n = (of_char c :: nat) in 48 \<le> n \<and> n \<le> 57)"

definition isdigit_char :: "char \<Rightarrow> bool" where
  \<comment> \<open>Characters with the Unicode digit property below 256: the ASCII digits and the
      superscripts two, three and one.\<close>
  "isdigit_char c = (let n = (of_char c :: nat)
                     in (48 \<le> n \<and> n \<le> 57) \<or> n = 178 \<or> n = 179 \<or> n = 185)"

definition isdigit :: "string \<Rightarrow> bool" where
  \<comment> \<open>\<open>str.isdigit()\<close>\<close>
  "isdigit s = (s \<noteq> [] \<and> list_all isdigit_char s)"

definition digit_val :: "char \<Rightarrow> nat" where
  "digit_val c = of_char c - 48"

definition decimal :: "string \<Rightarrow> nat" where
  "decimal s = foldl (\<lambda>acc c. 10 * acc + digit_val c) 0 s"

fun digit_groups :: "string \<Rightarrow> bool" where
  \<comment> \<open>Digits with single underscores between them, as \<open>int()\<close> accepts.\<close>
  "digit_groups [] = False"
| "digit_groups [c] = is_ascii_digit c"
| "digit_groups (c # d # s) =
     (is_ascii_digit c \<and> (if d = CHR ''_'' then digit_groups s else digit_groups (d # s)))"

datatype exn =
    AssertionError
  | error_perm
  | AttributeError
  | ValueError
  | OSError
  | error_temp
  | FileNotFoundError
  | FileExistsError
  | NotADirectoryError
  | IsADirectoryError
  | UnsafePath string

definition max_str_digits :: int where
  \<comment> \<open>\<open>sys.int_info.default_max_str_digits\<close>\<close>
  "max_str_digits = 4300"

definition py_int :: "string \<Rightarrow> exn + int" where
  \<comment> \<open>\<open>int(s)\<close> on a string: surrounding whitespace, an optional sign, decimal digits;
      a literal of more than \<open>max_str_digits\<close> digits is refused.\<close>
  "py_int s =
     (let t = strip s;
          neg = (t \<noteq> [] \<and> hd t = CHR ''-'');
          body = (if t \<noteq> [] \<and> (hd t = CHR ''-'' \<or> hd t = CHR ''+'') then tl t else t);
          digits = filter (\<lambda>c. c \<noteq> CHR ''_'') body
      in if digit_groups body \<and> int (length digits) \<le> max_str_digits
         then Inr ((if neg then - 1 else 1) * int (decimal digits))
         else Inl ValueError)"

definition lower_char :: "char \<Rightarrow> char" where
  "lower_char c = (let n = (of_char c :: nat)
                   in if (65 \<le> n \<and> n \<le> 90) \<or> (192 \<le> n \<and> n \<le> 222 \<and> n \<noteq> 215)
                      then char_of (n + 32) else c)"

definition lower :: "string \<Rightarrow> string" where
  \<comment> \<open>\<open>str.lower()\<close>\<close>
  "lower s = map lower_char s"

section \<open>FTPClient\<close>

type_synonym bytes = "char list"

type_synonym facts = "string \<rightharpoonup> string"

text \<open>
  An \<open>ftplib.FTP\<close> object: its identity and the replies the server gives to the calls
  the client makes on it. \<open>mlsd\<close> gathers the whole reply before it yields its first
  record, so its result is either an exception or all the records. \<open>retrbinary\<close> is
  given by the blocks \<open>recv\<close> returns, in order, and the exception that ends the
  transfer, if any.
\<close>

record FTP =
  conn_id :: nat
  connect_reply :: "exn option"
  login_reply :: "exn option"
  voidcmd_reply :: "exn option"
  pwd_reply :: "exn + string"
  quit_reply :: "exn option"
  close_reply :: "exn option"
  mlsd_reply :: "string \<Rightarrow> exn + (string \<times> facts) list"
  retrlines_reply :: "string \<Rightarrow> exn + string list"
  size_reply :: "string \<Rightarrow> exn + int option"
  retrbinary_reply :: "string \<Rightarrow> int \<Rightarrow> int option \<Rightarrow> bytes list \<times> exn option"

record FTPClient =
  ftp :: "FTP option"
  current_path :: string

subsection \<open>listdir\<close>

record entry =
  name :: string
  type :: string
  size_bytes :: int
  modify :: string

definition mlsd_entry :: "string \<times> facts \<Rightarrow> exn + entry" where
  \<comment> \<open>The dictionary built from one \<open>(name, facts)\<close> pair of \<open>mlsd\<close>.\<close>
  "mlsd_entry nf =
     (case nf of (n, fs) \<Rightarrow>
        (case (case fs ''size'' of
                 None \<Rightarrow> Inr 0
               | Some s \<Rightarrow> if s = [] then Inr 0 else py_int s) of
           Inl e \<Rightarrow> Inl e
         | Inr sz \<Rightarrow>
             Inr \<lparr>name = n,
                  type = (case fs ''type'' of None \<Rightarrow> ''file'' | Some t \<Rightarrow> t),
                  size_bytes = sz,
                  modify = (case fs ''modify'' of None \<Rightarrow> [] | Some d \<Rightarrow> d)\<rparr>))"

definition list_entry :: "string \<Rightarrow> exn + entry" where
  \<comment> \<open>The dictionary built from one line of the \<open>LIST\<close> reply.\<close>
  "list_entry line =
     (let parts = split_max 8 line
      in if length parts < 9
         then Inr \<lparr>name = (if parts \<noteq> [] then last parts else line),
                   type = ''file'', size_bytes = 0, modify = []\<rparr>
         else
           (let mode = parts ! 0; sz = parts ! 4; month = parts ! 5; day = parts ! 6;
                time_or_year = parts ! 7; nm = parts ! 8;
                is_dir = (mode \<noteq> [] \<and> hd mode = CHR ''d'')
            in case (if isdigit sz then py_int sz else Inr 0) of
                 Inl e \<Rightarrow> Inl e
               | Inr n \<Rightarrow>
                   Inr \<lparr>name = nm,
                        type = (if is_dir then ''dir'' else ''file''),
                        size_bytes = n,
                        modify = day @ '' '' @ month @ '' '' @ time_or_year\<rparr>))"

fun collect :: "('a \<Rightarrow> exn + 'b) \<Rightarrow> 'a list \<Rightarrow> exn + 'b list" where
  \<comment> \<open>A loop that appends one entry per item and stops at the first exception.\<close>
  "collect f [] = Inr []"
| "collect f (x # xs) =
     (case f x of
        Inl e \<Rightarrow> Inl e
      | Inr y \<Rightarrow> (case collect f xs of Inl e \<Rightarrow> Inl e | Inr ys \<Rightarrow> Inr (y # ys)))"

definition listdir_entries :: "FTP \<Rightarrow> string \<Rightarrow> exn + entry list" where
  \<comment> \<open>The \<open>try\<close>/\<open>except\<close> of \<open>listdir\<close>: only \<open>error_perm\<close> and \<open>AttributeError\<close> of
      the \<open>mlsd\<close> attempt lead to the \<open>LIST\<close> attempt.\<close>
  "listdir_entries f path =
     (case mlsd_reply f path of
        Inr recs \<Rightarrow> collect mlsd_entry recs
      | Inl e \<Rightarrow>
          if e = error_perm \<or> e = AttributeError
          then (case retrlines_reply f (''LIST '' @ path) of
                  Inl e' \<Rightarrow> Inl e'
                | Inr lines \<Rightarrow> collect list_entry lines)
          else Inl e)"

definition up_entry :: entry where
  "up_entry = \<lparr>name = ''..'', type = ''up'', size_bytes = 0, modify = []\<rparr>"

definition lower_name :: "entry \<Rightarrow> string" where
  "lower_name e = lower (name e)"

definition listdir_result :: "entry list \<Rightarrow> entry list" where
  \<comment> \<open>The last six lines of \<open>listdir\<close>. \<open>list.sort\<close> is stable, as \<open>sort_key\<close> is.\<close>
  "listdir_result entries0 =
     (let entries = filter (\<lambda>e. name e \<noteq> ''.'') entries0;
          dirs = filter (\<lambda>e. type e = ''dir'') entries;
          files = filter (\<lambda>e. type e \<noteq> ''dir'') entries
      in up_entry # sort_key lower_name dirs @ sort_key lower_name files)"

definition listdir :: "FTPClient \<Rightarrow> string option \<Rightarrow> exn + entry list" where
  "listdir self path_arg =
     (case ftp self of
        None \<Rightarrow> Inl AssertionError
      | Some f \<Rightarrow>
          (let path = (case path_arg of None \<Rightarrow> current_path self | Some p \<Rightarrow> p)
           in case listdir_entries f path of
                Inl e \<Rightarrow> Inl e
              | Inr entries \<Rightarrow> Inr (listdir_result entries)))"

subsection \<open>connect and close\<close>

text \<open>
  The calls made on connections are recorded in a log, so that their order can be stated.
\<close>

datatype event = Quit nat | Close nat | Connect nat | Login nat | TypeI nat | Pwd nat

definition close :: "FTPClient \<Rightarrow> event list \<Rightarrow> FTPClient \<times> event list" where
  \<comment> \<open>\<open>quit\<close>, and \<open>close\<close> when \<open>quit\<close> raises; what \<open>close\<close> raises is dropped.\<close>
  "close self log =
     (case ftp self of
        None \<Rightarrow> (self, log)
      | Some f \<Rightarrow>
          (self\<lparr>ftp := None\<rparr>,
           (case quit_reply f of
              None \<Rightarrow> log @ [Quit (conn_id f)]
            | Some _ \<Rightarrow> log @ [Quit (conn_id f), Close (conn_id f)])))"

definition connect ::
  "FTPClient \<Rightarrow> (string \<Rightarrow> int \<Rightarrow> string \<Rightarrow> string \<Rightarrow> FTP) \<Rightarrow> string \<Rightarrow> int \<Rightarrow> string \<Rightarrow> string
     \<Rightarrow> event list \<Rightarrow> (exn + bool) \<times> FTPClient \<times> event list" where
  \<comment> \<open>\<open>remote host port user password\<close> is the new \<open>ftplib.FTP\<close> object with the replies
      the server at that address gives to these credentials.\<close>
  "connect self remote host port user password log =
     (case close self log of
        (self1, log1) \<Rightarrow>
          (let new = remote host port user password; c = conn_id new
           in case connect_reply new of
                Some e \<Rightarrow> (Inl e, self1, log1 @ [Connect c])
              | None \<Rightarrow>
                  (case login_reply new of
                     Some e \<Rightarrow> (Inl e, self1, log1 @ [Connect c, Login c])
                   | None \<Rightarrow>
                       (case voidcmd_reply new of
                          Some e \<Rightarrow> (Inl e, self1, log1 @ [Connect c, Login c, TypeI c])
                        | None \<Rightarrow>
                            (Inr True,
                             self1\<lparr>ftp := Some new,
                                   current_path :=
                                     (case pwd_reply new of Inl _ \<Rightarrow> ''/'' | Inr p \<Rightarrow> p)\<rparr>,
                             log1 @ [Connect c, Login c, TypeI c, Pwd c])))))"

subsection \<open>download_file\<close>

text \<open>
  The local files are a map from file names to contents; opening and writing the local
  file are taken to succeed. The progress callback acts on a state of the caller.
\<close>

record 's download_state =
  local_file :: bytes
  bytes_done :: int
  cb_state :: 's

definition writer ::
  "(int \<Rightarrow> int option \<Rightarrow> 's \<Rightarrow> 's) option \<Rightarrow> int option \<Rightarrow> bytes
     \<Rightarrow> 's download_state \<Rightarrow> 's download_state" where
  "writer progress_cb total_size block st =
     (let st1 = st\<lparr>local_file := local_file st @ block\<rparr>;
          st2 = st1\<lparr>bytes_done := bytes_done st1 + int (length block)\<rparr>
      in case progress_cb of
           None \<Rightarrow> st2
         | Some cb \<Rightarrow> st2\<lparr>cb_state := cb (bytes_done st2) total_size (cb_state st2)\<rparr>)"

fun retrbinary :: "bytes list \<Rightarrow> (bytes \<Rightarrow> 'a \<Rightarrow> 'a) \<Rightarrow> 'a \<Rightarrow> 'a" where
  \<comment> \<open>The loop of \<open>ftplib\<close>: \<open>recv\<close> until it returns no data, the callback on each block.\<close>
  "retrbinary [] callback st = st"
| "retrbinary (d # ds) callback st =
     (if d = [] then st else retrbinary ds callback (callback d st))"

definition download_file ::
  "FTPClient \<Rightarrow> string \<Rightarrow> string \<Rightarrow> (int \<Rightarrow> int option \<Rightarrow> 's \<Rightarrow> 's) option \<Rightarrow> int \<Rightarrow> int
     \<Rightarrow> (string \<rightharpoonup> bytes) \<Rightarrow> 's \<Rightarrow> exn option \<times> (string \<rightharpoonup> bytes) \<times> 's" where
  "download_file self remote_path local_path progress_cb blocksize rest files cbs =
     (case ftp self of
        None \<Rightarrow> (Some AssertionError, files, cbs)
      | Some f \<Rightarrow>
          (let total_size = (case size_reply f remote_path of Inl _ \<Rightarrow> None | Inr n \<Rightarrow> n);
               old = (if rest > 0
                      then (case files local_path of None \<Rightarrow> [] | Some b \<Rightarrow> b) else []);
               reply = retrbinary_reply f (''RETR '' @ remote_path) blocksize
                         (if rest > 0 then Some rest else None);
               st = retrbinary (fst reply) (writer progress_cb total_size)
                      \<lparr>local_file = old, bytes_done = rest, cb_state = cbs\<rparr>
           in (snd reply, files(local_path \<mapsto> local_file st), cb_state st)))"

definition record_progress :: "int \<Rightarrow> int option \<Rightarrow> (int \<times> int option) list \<Rightarrow> (int \<times> int option) list" where
  \<comment> \<open>A progress callback that keeps the arguments of every invocation, in order.\<close>
  "record_progress bytes_so_far total_size calls = calls @ [(bytes_so_far, total_size)]"

definition received :: "bytes list \<Rightarrow> bytes list" where
  \<comment> \<open>The blocks received before \<open>recv\<close> returns no data.\<close>
  "received blocks = takeWhile (\<lambda>d. d \<noteq> []) blocks"

definition reported :: "int \<Rightarrow> int option \<Rightarrow> bytes list \<Rightarrow> (int \<times> int option) list" where
  \<comment> \<open>One pair per block: the offset \<open>r\<close> plus the bytes of the blocks up to and including
      that block, and the total size.\<close>
  "reported r tot bs =
     map (\<lambda>k. (r + int (length (concat (take (Suc k) bs))), tot)) [0..<length bs]"

section \<open>Extraction\<close>

text \<open>
  A \<open>Path\<close> is the list of its segments below the root. The file system has no symbolic
  links: it maps the canonical paths of its files and directories to their nodes, and the
  root is a directory.
\<close>

type_synonym path = "string list"

datatype node = File bytes | Dir

type_synonym filesystem = "path \<rightharpoonup> node"

record member =
  filename :: string
  is_dir :: bool
  content :: bytes

fun split_sep :: "char \<Rightarrow> string \<Rightarrow> string list" where
  "split_sep sep [] = [[]]"
| "split_sep sep (c # cs) =
     (if c = sep then [] # split_sep sep cs
      else (case split_sep sep cs of [] \<Rightarrow> [[c]] | w # ws \<Rightarrow> (c # w) # ws))"

definition name_parts :: "string \<Rightarrow> path" where
  \<comment> \<open>The segments of \<open>Path(m.filename).as_posix().lstrip("/")\<close>: \<open>Path\<close> drops empty
      segments and \<open>.\<close>, and keeps \<open>..\<close>.\<close>
  "name_parts fn = filter (\<lambda>s. s \<noteq> [] \<and> s \<noteq> ''.'') (split_sep (CHR ''/'') fn)"

definition parent :: "path \<Rightarrow> path" where
  "parent p = butlast p"

definition resolve :: "path \<Rightarrow> path" where
  \<comment> \<open>\<open>Path.resolve()\<close> where there are no symbolic links: \<open>..\<close> steps up, the root is its
      own parent, and a segment that does not exist is kept.\<close>
  "resolve p = foldl (\<lambda>acc s. if s = ''..'' then butlast acc else acc @ [s]) [] p"

definition path_str :: "path \<Rightarrow> string" where
  "path_str p = (if p = [] then ''/'' else concat (map (\<lambda>s. CHR ''/'' # s) p))"

definition guard_ok :: "path \<Rightarrow> member \<Rightarrow> bool" where
  \<comment> \<open>The traversal guard; \<open>resolve\<close> does not raise, so the \<open>except\<close> branch is never taken.\<close>
  "guard_ok dest_dir m =
     (let target = dest_dir @ name_parts (filename m);
          target_resolved_parent = parent (resolve (if is_dir m then parent target else target))
      in prefix (path_str (resolve dest_dir)) (path_str target_resolved_parent))"

definition node_at :: "filesystem \<Rightarrow> path \<Rightarrow> node option" where
  "node_at fs p = (if p = [] then Some Dir else fs p)"

fun lookup :: "filesystem \<Rightarrow> path \<Rightarrow> path \<Rightarrow> exn + path" where
  \<comment> \<open>The system's walk along the segments from the directory \<open>cur\<close>: the canonical path
      of what is there, or the error.\<close>
  "lookup fs cur [] = (if node_at fs cur = None then Inl FileNotFoundError else Inr cur)"
| "lookup fs cur (s # ss) =
     (case node_at fs cur of
        None \<Rightarrow> Inl FileNotFoundError
      | Some (File _) \<Rightarrow> Inl NotADirectoryError
      | Some Dir \<Rightarrow> lookup fs (if s = ''..'' then butlast cur else cur @ [s]) ss)"

definition exists_path :: "filesystem \<Rightarrow> path \<Rightarrow> bool" where
  "exists_path fs p = (case lookup fs [] p of Inl _ \<Rightarrow> False | Inr _ \<Rightarrow> True)"

definition is_file :: "filesystem \<Rightarrow> path \<Rightarrow> bool" where
  "is_file fs p =
     (case lookup fs [] p of
        Inl _ \<Rightarrow> False
      | Inr c \<Rightarrow> (case node_at fs c of Some (File _) \<Rightarrow> True | _ \<Rightarrow> False))"

definition is_dir_path :: "filesystem \<Rightarrow> path \<Rightarrow> bool" where
  "is_dir_path fs p =
     (case lookup fs [] p of Inl _ \<Rightarrow> False | Inr c \<Rightarrow> node_at fs c = Some Dir)"

definition os_mkdir :: "filesystem \<Rightarrow> path \<Rightarrow> exn + filesystem" where
  "os_mkdir fs p =
     (if p = [] then Inl FileExistsError
      else case lookup fs [] (butlast p) of
             Inl e \<Rightarrow> Inl e
           | Inr cur \<Rightarrow>
               (case node_at fs cur of
                  Some Dir \<Rightarrow>
                    if last p = ''..'' \<or> fs (cur @ [last p]) \<noteq> None then Inl FileExistsError
                    else Inr (fs(cur @ [last p] \<mapsto> Dir))
                | _ \<Rightarrow> Inl NotADirectoryError))"

definition mkdir_exist_ok :: "filesystem \<Rightarrow> path \<Rightarrow> exn option \<times> filesystem" where
  \<comment> \<open>\<open>Path.mkdir(parents=False, exist_ok=True)\<close>\<close>
  "mkdir_exist_ok fs p =
     (case os_mkdir fs p of
        Inr fs' \<Rightarrow> (None, fs')
      | Inl e \<Rightarrow>
          if e = FileNotFoundError then (Some e, fs)
          else if is_dir_path fs p then (None, fs) else (Some e, fs))"

function mkdir :: "filesystem \<Rightarrow> path \<Rightarrow> exn option \<times> filesystem" where
  \<comment> \<open>\<open>Path.mkdir(parents=True, exist_ok=True)\<close>\<close>
  "mkdir fs p =
     (case os_mkdir fs p of
        Inr fs' \<Rightarrow> (None, fs')
      | Inl e \<Rightarrow>
          if e = FileNotFoundError
          then (if parent p = p then (Some e, fs)
                else (case mkdir fs (parent p) of
                        (Some e', fs1) \<Rightarrow> (Some e', fs1)
                      | (None, fs1) \<Rightarrow> mkdir_exist_ok fs1 p))
          else if is_dir_path fs p then (None, fs) else (Some e, fs))"
  by pat_completeness auto
termination
proof (relation "measure (\<lambda>(fs, p). length p)", goal_cases)
  case 1
  show ?case by simp
next
  case (2 fs p e)
  then show ?case by (cases p) (auto simp: parent_def)
qed

declare mkdir.simps [simp del]

definition unlink :: "filesystem \<Rightarrow> path \<Rightarrow> filesystem" where
  \<comment> \<open>What the \<open>try\<close> around \<open>unlink\<close> leaves: the file removed, or nothing changed.\<close>
  "unlink fs p =
     (case lookup fs [] p of
        Inl _ \<Rightarrow> fs
      | Inr c \<Rightarrow> (case node_at fs c of Some (File _) \<Rightarrow> fs(c := None) | _ \<Rightarrow> fs))"

definition rmtree :: "filesystem \<Rightarrow> path \<Rightarrow> filesystem" where
  \<comment> \<open>What the \<open>try\<close> around \<open>shutil.rmtree\<close> leaves: the directory and all below it removed.\<close>
  "rmtree fs p =
     (case lookup fs [] p of
        Inl _ \<Rightarrow> fs
      | Inr c \<Rightarrow>
          (case node_at fs c of
             Some Dir \<Rightarrow> (\<lambda>q. if prefix c q then None else fs q)
           | _ \<Rightarrow> fs))"

definition bad_char :: "char \<Rightarrow> bool" where
  \<comment> \<open>\<open>RC_BAD_CHARS_UNIX\<close> of the \<open>rarfile\<close> library: the control characters below 32 and
      \<open>< > | " ? *\<close>.\<close>
  "bad_char c =
     ((of_char c :: nat) < 32 \<or>
      c \<in> set [CHR ''<'', CHR ''>'', CHR ''|'', CHR 0x22, CHR ''?'', CHR ''*''])"

definition sanitize_filename :: "string \<Rightarrow> path" where
  \<comment> \<open>The segments of \<open>rarfile.sanitize_filename\<close> on a POSIX system: every bad character
      becomes \<open>_\<close>, and the empty segments, \<open>.\<close> and \<open>..\<close> are dropped.\<close>
  "sanitize_filename fn =
     filter (\<lambda>s. s \<noteq> [] \<and> s \<noteq> ''.'' \<and> s \<noteq> ''..'')
       (split_sep (CHR ''/'') (map (\<lambda>c. if bad_char c then CHR ''_'' else c) fn))"

definition makedirs_leaf :: "filesystem \<Rightarrow> path \<Rightarrow> exn option \<times> filesystem" where
  \<comment> \<open>The last step of \<open>os.makedirs(name, exist_ok=True)\<close>: \<open>mkdir(name)\<close>, whose error is
      dropped when \<open>name\<close> is a directory.\<close>
  "makedirs_leaf fs p =
     (case os_mkdir fs p of
        Inr fs' \<Rightarrow> (None, fs')
      | Inl e \<Rightarrow> if is_dir_path fs p then (None, fs) else (Some e, fs))"

function makedirs :: "filesystem \<Rightarrow> path \<Rightarrow> exn option \<times> filesystem" where
  \<comment> \<open>\<open>os.makedirs(name, exist_ok=True)\<close>\<close>
  "makedirs fs p =
     (if p \<noteq> [] \<and> \<not> exists_path fs (butlast p)
      then (case makedirs fs (butlast p) of
              (Some e, fs1) \<Rightarrow>
                if e = FileExistsError then makedirs_leaf fs1 p else (Some e, fs1)
            | (None, fs1) \<Rightarrow> makedirs_leaf fs1 p)
      else makedirs_leaf fs p)"
  by pat_completeness auto
termination
  by (relation "measure (\<lambda>(fs, p). length p)") auto

declare makedirs.simps [simp del]

definition rf_extract :: "member \<Rightarrow> path \<Rightarrow> filesystem \<Rightarrow> exn option \<times> filesystem" where
  \<comment> \<open>\<open>RarFile.extract(m, path)\<close> of the \<open>rarfile\<close> library for a file member: the
      directories above the sanitised name under \<open>path\<close> are made, and the member's bytes
      are written to the file of that name, which is created or truncated.\<close>
  "rf_extract m path fs =
     (let fname = sanitize_filename (filename m);
          dstfn = path @ fname
      in case makedirs fs (if fname = [] then path else butlast dstfn) of
           (Some e, fs1) \<Rightarrow> (Some e, fs1)
         | (None, fs1) \<Rightarrow>
             if fname = [] then (Some IsADirectoryError, fs1)
             else
               (case lookup fs1 [] (butlast dstfn) of
                  Inl e \<Rightarrow> (Some e, fs1)
                | Inr cur \<Rightarrow>
                    (case node_at fs1 cur of
                       Some Dir \<Rightarrow>
                         if fs1 (cur @ [last dstfn]) = Some Dir
                         then (Some IsADirectoryError, fs1)
                         else (None, fs1(cur @ [last dstfn] \<mapsto> File (content m)))
                     | _ \<Rightarrow> (Some NotADirectoryError, fs1))))"

definition extract_member ::
  "path \<Rightarrow> bool \<Rightarrow> member \<Rightarrow> filesystem \<Rightarrow> exn option \<times> filesystem" where
  \<comment> \<open>The body of the loop of \<open>_extract_rar\<close>.\<close>
  "extract_member dest_dir overwrite m fs =
     (if \<not> guard_ok dest_dir m then (Some (UnsafePath (filename m)), fs)
      else
        (let target_file = dest_dir @ name_parts (filename m)
         in if is_dir m then mkdir fs target_file
            else
              (case mkdir fs (parent target_file) of
                 (Some e, fs1) \<Rightarrow> (Some e, fs1)
               | (None, fs1) \<Rightarrow>
                   (let fs2 = (if exists_path fs1 target_file \<and> overwrite
                               then (if is_file fs1 target_file then unlink fs1 target_file
                                     else rmtree fs1 target_file)
                               else fs1)
                    in if \<not> exists_path fs2 target_file \<or> overwrite
                       then rf_extract m dest_dir fs2
                       else (None, fs2)))))"

fun extract_rar ::
  "path \<Rightarrow> bool \<Rightarrow> member list \<Rightarrow> filesystem \<Rightarrow> exn option \<times> filesystem" where
  "extract_rar dest_dir overwrite [] fs = (None, fs)"
| "extract_rar dest_dir overwrite (m # ms) fs =
     (case extract_member dest_dir overwrite m fs of
        (Some e, fs1) \<Rightarrow> (Some e, fs1)
      | (None, fs1) \<Rightarrow> extract_rar dest_dir overwrite ms fs1)"

section \<open>Example inputs\<close>

definition example_ftp :: FTP where
  "example_ftp =
     \<lparr>conn_id = 1, connect_reply = None, login_reply = None, voidcmd_reply = None,
      pwd_reply = Inr ''/pub'', quit_reply = None, close_reply = None,
      mlsd_reply = (\<lambda>p. Inr []), retrlines_reply = (\<lambda>c. Inr []),
      size_reply = (\<lambda>p. Inr None), retrbinary_reply = (\<lambda>c b r. ([], None))\<rparr>"

definition example_mlsd_client :: FTPClient where
  "example_mlsd_client =
     \<lparr>ftp = Some (example_ftp\<lparr>mlsd_reply := (\<lambda>p. Inr
        [(''b.txt'', [''type'' \<mapsto> ''file'', ''size'' \<mapsto> ''10'']),
         (''Beta'', [''type'' \<mapsto> ''dir'']),
         (''.'', [''type'' \<mapsto> ''cdir'']),
         (''A.rar'', [''type'' \<mapsto> ''file'', ''size'' \<mapsto> ''5'']),
         (''alpha'', [''type'' \<mapsto> ''dir''])])\<rparr>),
      current_path = ''/pub''\<rparr>"

definition example_line :: string where
  "example_line = ''drwxr-xr-x 2 user group 64 Jan 15 12:00 docs''"

definition example_list_ftp :: FTP where
  "example_list_ftp =
     example_ftp\<lparr>mlsd_reply := (\<lambda>p. Inl error_perm),
                 retrlines_reply := (\<lambda>c. if c = ''LIST /pub''
                    then Inr [''-rw-r--r-- 1 user group 42 Jan 15 12:00 data.rar'',
                              example_line]
                    else Inl error_perm)\<rparr>"

definition example_list_client :: FTPClient where
  "example_list_client = \<lparr>ftp = Some example_list_ftp, current_path = ''/''\<rparr>"

definition example_blocks :: "bytes list" where
  "example_blocks =
     [replicate 65536 (CHR ''a''), replicate 65536 (CHR ''b''), replicate 65536 (CHR ''c''),
      replicate 65536 (CHR ''d''), replicate 37856 (CHR ''e''), []]"

definition example_download_ftp :: FTP where
  "example_download_ftp =
     example_ftp\<lparr>size_reply := (\<lambda>p. Inr (Some 300000)),
                 retrbinary_reply := (\<lambda>c b r. (example_blocks, None))\<rparr>"

definition example_download_client :: FTPClient where
  "example_download_client = \<lparr>ftp = Some example_download_ftp, current_path = ''/pub''\<rparr>"

definition example_resume_ftp :: FTP where
  "example_resume_ftp =
     example_ftp\<lparr>size_reply := (\<lambda>p. Inr (Some 10)),
                 retrbinary_reply := (\<lambda>c b r. ([''efg'', ''hij'', []], None))\<rparr>"

definition example_resume_client :: FTPClient where
  "example_resume_client = \<lparr>ftp = Some example_resume_ftp, current_path = ''/pub''\<rparr>"

definition example_remote :: "string \<Rightarrow> int \<Rightarrow> string \<Rightarrow> string \<Rightarrow> FTP" where
  \<comment> \<open>A server that refuses every password but \<open>guest\<close>.\<close>
  "example_remote host port user password =
     example_ftp\<lparr>conn_id := 2,
                 login_reply := (if password = ''guest'' then None else Some error_perm)\<rparr>"

definition example_dest :: path where
  "example_dest = [''tmp'', ''out'']"

definition example_fs :: filesystem where
  "example_fs = [[''tmp''] \<mapsto> Dir, [''tmp'', ''out''] \<mapsto> Dir]"


definition member_foo :: member where
  "member_foo = \<lparr>filename = ''foo.txt'', is_dir = False, content = ''new''\<rparr>"

definition member_passwd :: member where
  "member_passwd = \<lparr>filename = ''../../etc/passwd'', is_dir = False, content = ''root''\<rparr>"

definition member_deep :: member where
  "member_deep = \<lparr>filename = ''a/b/c.txt'', is_dir = False, content = ''c''\<rparr>"

definition example_fs_bar :: filesystem where
  "example_fs_bar =
     example_fs([''tmp'', ''out'', ''a''] \<mapsto> Dir,
                [''tmp'', ''out'', ''a'', ''bar.txt''] \<mapsto> File ''old'')"

definition member_bar :: member where
  "member_bar = \<lparr>filename = ''a/../bar.txt'', is_dir = False, content = ''new''\<rparr>"

definition member_sibling :: member where
  "member_sibling = \<lparr>filename = ''../outside/x'', is_dir = False, content = ''x''\<rparr>"

section \<open>Listings\<close>

lemma tok_nonempty: "t \<in> set (split_max n s) \<Longrightarrow> t \<noteq> []"
proof (induction n arbitrary: s)
  case 0
  then show ?case by (auto simp: Let_def split: if_splits)
next
  case (Suc n)
  show ?case
  proof (cases "dropWhile isspace s")
    case Nil
    with Suc.prems show ?thesis by simp
  next
    case (Cons c r)
    then have "\<not> isspace c" using hd_dropWhile[of isspace s] by auto
    with Suc Cons show ?thesis by (auto simp: Let_def)
  qed
qed

lemma tok_subset: "t \<in> set (split_max n s) \<Longrightarrow> set t \<subseteq> set s"
proof (induction n arbitrary: s)
  case 0
  then show ?case by (auto simp: Let_def split: if_splits dest: set_dropWhileD)
next
  case (Suc n)
  from Suc.prems have "t = takeWhile (\<lambda>c. \<not> isspace c) (dropWhile isspace s)
      \<or> t \<in> set (split_max n (dropWhile (\<lambda>c. \<not> isspace c) (dropWhile isspace s)))"
    by (auto simp: Let_def split: if_splits)
  then show ?case
  proof
    assume "t = takeWhile (\<lambda>c. \<not> isspace c) (dropWhile isspace s)"
    then show ?thesis by (auto dest: set_takeWhileD set_dropWhileD)
  next
    assume "t \<in> set (split_max n (dropWhile (\<lambda>c. \<not> isspace c) (dropWhile isspace s)))"
    from Suc.IH[OF this] show ?thesis by (auto dest: set_dropWhileD)
  qed
qed

lemma digit_not_space: "is_ascii_digit c \<Longrightarrow> \<not> int_space c"
  by (auto simp: is_ascii_digit_def int_space_def Let_def)

lemma digit_not_sign: "is_ascii_digit c \<Longrightarrow> c \<noteq> CHR ''-'' \<and> c \<noteq> CHR ''+'' \<and> c \<noteq> CHR ''_''"
  by (auto simp: is_ascii_digit_def Let_def)

lemma strip_id: "s \<noteq> [] \<Longrightarrow> \<not> int_space (hd s) \<Longrightarrow> \<not> int_space (last s) \<Longrightarrow> strip s = s"
proof -
  assume a: "s \<noteq> []" "\<not> int_space (hd s)" "\<not> int_space (last s)"
  then have "dropWhile int_space s = s" by (cases s) auto
  moreover have "dropWhile int_space (rev s) = rev s" using a by (cases "rev s") (auto simp: last_rev[symmetric] simp del: last_rev)
  ultimately show ?thesis by (simp add: strip_def)
qed

lemma digit_groups_all: "s \<noteq> [] \<Longrightarrow> list_all is_ascii_digit s \<Longrightarrow> digit_groups s"
  by (induction s rule: digit_groups.induct) (auto dest: digit_not_sign)

lemma py_int_digits:
  assumes "s \<noteq> []" "list_all is_ascii_digit s" "int (length s) \<le> max_str_digits"
  shows "py_int s = Inr (int (decimal s))"
proof -
  have h: "is_ascii_digit (hd s)" "is_ascii_digit (last s)"
    using assms by (auto simp: list_all_iff)
  have st: "strip s = s" using assms(1) h by (intro strip_id) (auto dest: digit_not_space)
  have f: "filter (\<lambda>c. c \<noteq> CHR ''_'') s = s"
    using assms(2) by (auto simp: list_all_iff filter_id_conv dest: digit_not_sign)
  show ?thesis
    using assms h digit_not_sign[OF h(1)] digit_groups_all[OF assms(1,2)]
    by (simp add: py_int_def st f Let_def)
qed

lemma digit_groups_chars: "digit_groups s \<Longrightarrow> c \<in> set s \<Longrightarrow> is_ascii_digit c \<or> c = CHR ''_''"
  by (induction s rule: digit_groups.induct) (auto split: if_splits)

lemma isdigit_char_plain:
  "isdigit_char c \<Longrightarrow> \<not> int_space c \<and> c \<noteq> CHR ''-'' \<and> c \<noteq> CHR ''+'' \<and> c \<noteq> CHR ''_''"
  by (auto simp: isdigit_char_def int_space_def Let_def)

lemma py_int_isdigit_error:
  assumes "isdigit s"
    and "\<not> list_all is_ascii_digit s \<or> max_str_digits < int (length s)"
  shows "py_int s = Inl ValueError"
proof -
  from assms(1) have ne: "s \<noteq> []" and d: "\<forall>c\<in>set s. isdigit_char c"
    by (auto simp: isdigit_def list_all_iff)
  from ne d have h: "isdigit_char (hd s)" "isdigit_char (last s)" by auto
  have st: "strip s = s" using ne h by (intro strip_id) (auto dest: isdigit_char_plain)
  have f: "filter (\<lambda>c. c \<noteq> CHR ''_'') s = s"
    using d by (auto simp: filter_id_conv dest: isdigit_char_plain)
  have "\<not> (digit_groups s \<and> int (length s) \<le> max_str_digits)"
  proof
    assume g: "digit_groups s \<and> int (length s) \<le> max_str_digits"
    with assms(2) obtain c where c: "c \<in> set s" "\<not> is_ascii_digit c"
      by (auto simp: list_all_iff)
    from digit_groups_chars[OF conjunct1[OF g] c(1)] c(2) have "c = CHR ''_''" by simp
    with d c(1) show False by (auto dest: isdigit_char_plain)
  qed
  then show ?thesis using ne isdigit_char_plain[OF h(1)]
    by (auto simp: py_int_def st f Let_def)
qed

lemma list_entry_nine:
  assumes "9 \<le> length (split_max 8 line)"
    and "isdigit (split_max 8 line ! 4) \<longrightarrow>
           list_all is_ascii_digit (split_max 8 line ! 4) \<and>
           int (length (split_max 8 line ! 4)) \<le> max_str_digits"
  shows "\<exists>e. list_entry line = Inr e \<and>
     name e = split_max 8 line ! 8 \<and>
     type e = (if hd (split_max 8 line ! 0) = CHR ''d'' then ''dir'' else ''file'') \<and>
     size_bytes e = (if isdigit (split_max 8 line ! 4) then int (decimal (split_max 8 line ! 4)) else 0) \<and>
     modify e = split_max 8 line ! 6 @ '' '' @ split_max 8 line ! 5 @ '' '' @ split_max 8 line ! 7"
proof -
  let ?p = "split_max 8 line"
  have "?p ! 0 \<in> set ?p" "?p ! 4 \<in> set ?p" using assms(1) by (auto intro!: nth_mem)
  then have ne: "?p ! 0 \<noteq> []" "?p ! 4 \<noteq> []" by (auto dest: tok_nonempty)
  show ?thesis
  proof (cases "isdigit (?p ! 4)")
    case True
    with assms(2) have "list_all is_ascii_digit (?p ! 4)" "int (length (?p ! 4)) \<le> max_str_digits"
      by simp_all
    from py_int_digits[OF ne(2) this] True assms(1) ne(1) show ?thesis
      by (simp add: list_entry_def Let_def)
  next
    case False
    with assms(1) ne(1) show ?thesis by (simp add: list_entry_def Let_def)
  qed
qed

lemma length_split: "length (split_max n s) \<le> Suc n"
  by (induction n arbitrary: s) (auto simp: Let_def)

lemma split_empty: "split_max n s = [] \<longleftrightarrow> dropWhile isspace s = []"
  by (cases n) (auto simp: Let_def)

lemma collect_ok:
  "\<forall>x\<in>set xs. \<exists>y. f x = Inr y \<Longrightarrow> \<exists>ys. collect f xs = Inr ys \<and> length ys = length xs"
  by (induction xs) auto

lemma list_entry_size_error:
  assumes "9 \<le> length (split_max 8 line)" and "isdigit (split_max 8 line ! 4)"
    and "\<not> list_all is_ascii_digit (split_max 8 line ! 4) \<or>
         max_str_digits < int (length (split_max 8 line ! 4))"
  shows "list_entry line = Inl ValueError"
  using assms(1,2) py_int_isdigit_error[OF assms(2,3)] by (simp add: list_entry_def Let_def)

lemma list_entry_some:
  assumes "9 \<le> length (split_max 8 line) \<and> isdigit (split_max 8 line ! 4) \<longrightarrow>
             list_all is_ascii_digit (split_max 8 line ! 4) \<and>
             int (length (split_max 8 line ! 4)) \<le> max_str_digits"
  shows "\<exists>e. list_entry line = Inr e"
proof (cases "length (split_max 8 line) < 9")
  case True
  then show ?thesis by (simp add: list_entry_def Let_def)
next
  case False
  then have len: "9 \<le> length (split_max 8 line)" by simp
  with assms have "isdigit (split_max 8 line ! 4) \<longrightarrow>
      list_all is_ascii_digit (split_max 8 line ! 4) \<and>
      int (length (split_max 8 line ! 4)) \<le> max_str_digits"
    by blast
  from list_entry_nine[OF len this] show ?thesis by blast
qed

lemma listdir_list_attempt:
  assumes "ftp self = Some f"
    and "mlsd_reply f path = Inl e" and "e = error_perm \<or> e = AttributeError"
    and "retrlines_reply f (''LIST '' @ path) = Inr lines"
    and "\<forall>l\<in>set lines. 9 \<le> length (split_max 8 l) \<and> isdigit (split_max 8 l ! 4) \<longrightarrow>
           list_all is_ascii_digit (split_max 8 l ! 4) \<and>
           int (length (split_max 8 l ! 4)) \<le> max_str_digits"
  shows "\<exists>es. collect list_entry lines = Inr es \<and> length es = length lines \<and>
           listdir self (Some path) = Inr (listdir_result es)"
proof -
  have "\<forall>l\<in>set lines. \<exists>y. list_entry l = Inr y"
    using assms(5) by (auto intro!: list_entry_some)
  from collect_ok[OF this] obtain es where es: "collect list_entry lines = Inr es" "length es = length lines"
    by blast
  have "listdir_entries f path = Inr es"
    using assms(2,3,4) es(1) by (auto simp: listdir_entries_def)
  then show ?thesis using assms(1) es by (simp add: listdir_def)
qed

lemma listdir_list_error:
  assumes "ftp self = Some f"
    and "mlsd_reply f path = Inl e" and "e = error_perm \<or> e = AttributeError"
    and "retrlines_reply f (''LIST '' @ path) = Inl e'"
  shows "listdir self (Some path) = Inl e'"
  using assms by (auto simp: listdir_def listdir_entries_def)


lemma listdir_mlsd_first:
  assumes "ftp self = Some f" and "mlsd_reply f path = Inr recs"
  shows "listdir self (Some path) =
           (case collect mlsd_entry recs of Inl x \<Rightarrow> Inl x | Inr es \<Rightarrow> Inr (listdir_result es))"
  using assms by (simp add: listdir_def listdir_entries_def)


lemma mset_filter_split: "mset (filter P xs) + mset (filter (\<lambda>x. \<not> P x) xs) = mset xs"
  by (induction xs) auto


text \<open>
  Claim C3. Every listing \<open>listdir\<close> returns, from either kind of reply, is the synthetic
  parent entry, then the entries of type \<open>dir\<close>, then all other entries; each of the two
  groups is in ascending order of the lower-cased name, and together they are the entries
  gathered from the server without those named \<open>.\<close>.
\<close>

theorem listdir_order:
  assumes "listdir self path_arg = Inr out"
  shows "\<exists>f es ds fs. ftp self = Some f \<and>
           listdir_entries f (case path_arg of None \<Rightarrow> current_path self | Some p \<Rightarrow> p) = Inr es \<and>
           out = up_entry # ds @ fs \<and>
           (\<forall>e\<in>set ds. type e = ''dir'') \<and> (\<forall>e\<in>set fs. type e \<noteq> ''dir'') \<and>
           sorted (map lower_name ds) \<and> sorted (map lower_name fs) \<and>
           mset (ds @ fs) = mset (filter (\<lambda>e. name e \<noteq> ''.'') es)"
proof -
  from assms obtain f where f: "ftp self = Some f"
    by (auto simp: listdir_def split: option.splits)
  let ?p = "case path_arg of None \<Rightarrow> current_path self | Some p \<Rightarrow> p"
  from assms f obtain es where es: "listdir_entries f ?p = Inr es" "out = listdir_result es"
    by (auto simp: listdir_def Let_def split: sum.splits)
  let ?en = "filter (\<lambda>e. name e \<noteq> ''.'') es"
  let ?ds = "sort_key lower_name (filter (\<lambda>e. type e = ''dir'') ?en)"
  let ?fs = "sort_key lower_name (filter (\<lambda>e. type e \<noteq> ''dir'') ?en)"
  have 1: "out = up_entry # ?ds @ ?fs" using es(2) by (simp add: listdir_result_def Let_def)
  have 2: "\<forall>e\<in>set ?ds. type e = ''dir''" by simp
  have 3: "\<forall>e\<in>set ?fs. type e \<noteq> ''dir''" by simp
  have 4: "sorted (map lower_name ?ds)" "sorted (map lower_name ?fs)" by (rule sorted_sort_key)+
  have 5: "mset (?ds @ ?fs) = mset ?en"
    unfolding mset_append mset_sort by (rule mset_filter_split)
  from f es(1) 1 2 3 4 5 show ?thesis by blast
qed


theorem listdir_order_witness:
  "listdir example_mlsd_client None = Inr
     [up_entry,
      \<lparr>name = ''alpha'', type = ''dir'', size_bytes = 0, modify = []\<rparr>,
      \<lparr>name = ''Beta'', type = ''dir'', size_bytes = 0, modify = []\<rparr>,
      \<lparr>name = ''A.rar'', type = ''file'', size_bytes = 5, modify = []\<rparr>,
      \<lparr>name = ''b.txt'', type = ''file'', size_bytes = 10, modify = []\<rparr>] \<and>
   (\<exists>f es ds fs. ftp example_mlsd_client = Some f \<and>
      listdir_entries f (case None of None \<Rightarrow> current_path example_mlsd_client | Some p \<Rightarrow> p) =
        Inr es \<and>
      [up_entry,
       \<lparr>name = ''alpha'', type = ''dir'', size_bytes = 0, modify = []\<rparr>,
       \<lparr>name = ''Beta'', type = ''dir'', size_bytes = 0, modify = []\<rparr>,
       \<lparr>name = ''A.rar'', type = ''file'', size_bytes = 5, modify = []\<rparr>,
       \<lparr>name = ''b.txt'', type = ''file'', size_bytes = 10, modify = []\<rparr>] = up_entry # ds @ fs \<and>
      (\<forall>e\<in>set ds. type e = ''dir'') \<and> (\<forall>e\<in>set fs. type e \<noteq> ''dir'') \<and>
      sorted (map lower_name ds) \<and> sorted (map lower_name fs) \<and>
      mset (ds @ fs) = mset (filter (\<lambda>e. name e \<noteq> ''.'') es))"
proof -
  have h: "listdir example_mlsd_client None = Inr
     [up_entry,
      \<lparr>name = ''alpha'', type = ''dir'', size_bytes = 0, modify = []\<rparr>,
      \<lparr>name = ''Beta'', type = ''dir'', size_bytes = 0, modify = []\<rparr>,
      \<lparr>name = ''A.rar'', type = ''file'', size_bytes = 5, modify = []\<rparr>,
      \<lparr>name = ''b.txt'', type = ''file'', size_bytes = 10, modify = []\<rparr>]"
    by code_simp
  show ?thesis by (rule conjI[OF h listdir_order[OF h]])
qed

text \<open>
  Claim C4, as amended. \<open>listdir\<close> asks for the machine-readable listing first: when
  \<open>mlsd\<close> answers, the result is built from its records alone. When \<open>mlsd\<close> fails with a
  permission error or is not available, \<open>listdir\<close> sends \<open>LIST\<close> for the same path. When
  that request fails too, the caller gets its error; when it is answered, and each size
  token that is a digit string has only ASCII digits, \<open>max_str_digits\<close> of them at most,
  the caller gets a normal listing with one entry per line.
\<close>

theorem listdir_fallback:
  assumes "ftp self = Some f"
  shows "(\<forall>recs. mlsd_reply f path = Inr recs \<longrightarrow>
            listdir self (Some path) =
              (case collect mlsd_entry recs of
                 Inl x \<Rightarrow> Inl x
               | Inr es \<Rightarrow> Inr (listdir_result es))) \<and>
         (\<forall>e. mlsd_reply f path = Inl e \<and> (e = error_perm \<or> e = AttributeError) \<longrightarrow>
            (\<forall>e'. retrlines_reply f (''LIST '' @ path) = Inl e' \<longrightarrow>
               listdir self (Some path) = Inl e') \<and>
            (\<forall>lines. retrlines_reply f (''LIST '' @ path) = Inr lines \<and>
               (\<forall>l\<in>set lines. 9 \<le> length (split_max 8 l) \<and> isdigit (split_max 8 l ! 4) \<longrightarrow>
                  list_all is_ascii_digit (split_max 8 l ! 4) \<and>
                  int (length (split_max 8 l ! 4)) \<le> max_str_digits) \<longrightarrow>
               (\<exists>es. collect list_entry lines = Inr es \<and> length es = length lines \<and>
                  listdir self (Some path) = Inr (listdir_result es))))"
  using listdir_mlsd_first[OF assms] listdir_list_attempt[OF assms] listdir_list_error[OF assms]
  by blast

theorem listdir_fallback_witness:
  "ftp example_list_client = Some example_list_ftp \<and>
   mlsd_reply example_list_ftp ''/pub'' = Inl error_perm \<and>
   retrlines_reply example_list_ftp (''LIST '' @ ''/pub'') =
     Inr [''-rw-r--r-- 1 user group 42 Jan 15 12:00 data.rar'', example_line] \<and>
   (\<exists>es. collect list_entry
            [''-rw-r--r-- 1 user group 42 Jan 15 12:00 data.rar'', example_line] = Inr es \<and>
      length es = length [''-rw-r--r-- 1 user group 42 Jan 15 12:00 data.rar'', example_line] \<and>
      listdir example_list_client (Some ''/pub'') = Inr (listdir_result es)) \<and>
   listdir example_list_client (Some ''/pub'') = Inr
     [up_entry,
      \<lparr>name = ''docs'', type = ''dir'', size_bytes = 64, modify = ''15 Jan 12:00''\<rparr>,
      \<lparr>name = ''data.rar'', type = ''file'', size_bytes = 42, modify = ''15 Jan 12:00''\<rparr>]"
proof -
  have h1: "ftp example_list_client = Some example_list_ftp"
    by (simp add: example_list_client_def)
  have h2: "mlsd_reply example_list_ftp ''/pub'' = Inl error_perm"
    by (simp add: example_list_ftp_def)
  have h3: "retrlines_reply example_list_ftp (''LIST '' @ ''/pub'') =
     Inr [''-rw-r--r-- 1 user group 42 Jan 15 12:00 data.rar'', example_line]"
    by (simp add: example_list_ftp_def)
  have h4: "\<forall>l\<in>set [''-rw-r--r-- 1 user group 42 Jan 15 12:00 data.rar'', example_line].
      9 \<le> length (split_max 8 l) \<and> isdigit (split_max 8 l ! 4) \<longrightarrow>
      list_all is_ascii_digit (split_max 8 l ! 4) \<and>
      int (length (split_max 8 l ! 4)) \<le> max_str_digits"
    by code_simp
  have h5: "listdir example_list_client (Some ''/pub'') = Inr
     [up_entry,
      \<lparr>name = ''docs'', type = ''dir'', size_bytes = 64, modify = ''15 Jan 12:00''\<rparr>,
      \<lparr>name = ''data.rar'', type = ''file'', size_bytes = 42, modify = ''15 Jan 12:00''\<rparr>]"
    by code_simp
  note u = mp[OF spec[OF conjunct2[OF listdir_fallback[OF h1, of "''/pub''"]]]
      conjI[OF h2 disjI1[OF refl]]]
  note t = mp[OF spec[OF conjunct2[OF u]] conjI[OF h3 h4]]
  show ?thesis by (rule conjI[OF h1 conjI[OF h2 conjI[OF h3 conjI[OF t h5]]]])
qed

text \<open>
  A server that refuses both requests for \<open>/private\<close>: the \<open>LIST\<close> attempt is made, and
  the caller gets its error instead of a listing.
\<close>

theorem listdir_fallback_error:
  "ftp example_list_client = Some example_list_ftp \<and>
   mlsd_reply example_list_ftp ''/private'' = Inl error_perm \<and>
   retrlines_reply example_list_ftp (''LIST '' @ ''/private'') = Inl error_perm \<and>
   listdir example_list_client (Some ''/private'') = Inl error_perm"
proof -
  have h1: "ftp example_list_client = Some example_list_ftp"
    by (simp add: example_list_client_def)
  have h2: "mlsd_reply example_list_ftp ''/private'' = Inl error_perm"
    by (simp add: example_list_ftp_def)
  have h3: "retrlines_reply example_list_ftp (''LIST '' @ ''/private'') = Inl error_perm"
    by (simp add: example_list_ftp_def)
  have h4: "listdir example_list_client (Some ''/private'') = Inl error_perm"
    using h1 h2 h3 by (simp add: listdir_def listdir_entries_def)
  show ?thesis by (rule conjI[OF h1 conjI[OF h2 conjI[OF h3 h4]]])
qed

text \<open>
  Claim C5, as amended. A \<open>LIST\<close> line with fewer than nine tokens never raises and gives an
  entry of type \<open>file\<close> with size 0 and no date. Its name is the last token when the line
  has a token and the whole line otherwise, so the name is empty exactly when the line is
  empty.
\<close>

theorem list_entry_short:
  assumes "length (split_max 8 line) < 9"
  shows "\<exists>e. list_entry line = Inr e \<and> type e = ''file'' \<and> size_bytes e = 0 \<and> modify e = [] \<and>
     name e = (if split_max 8 line = [] then line else last (split_max 8 line)) \<and>
     (name e = [] \<longleftrightarrow> line = [])"
proof (cases "split_max 8 line = []")
  case True
  then show ?thesis using assms by (simp add: list_entry_def Let_def)
next
  case False
  then have "last (split_max 8 line) \<in> set (split_max 8 line)" by simp
  then have "last (split_max 8 line) \<noteq> []" by (rule tok_nonempty)
  moreover have "line \<noteq> []" using False by (auto simp: split_empty)
  ultimately show ?thesis using assms False by (simp add: list_entry_def Let_def)
qed

theorem list_entry_short_witness:
  "length (split_max 8 ''total 12'') < 9 \<and>
   (\<exists>e. list_entry ''total 12'' = Inr e \<and> type e = ''file'' \<and> size_bytes e = 0 \<and>
      modify e = [] \<and>
      name e = (if split_max 8 ''total 12'' = [] then ''total 12''
                else last (split_max 8 ''total 12'')) \<and>
      (name e = [] \<longleftrightarrow> ''total 12'' = [])) \<and>
   list_entry ''total 12'' = Inr \<lparr>name = ''12'', type = ''file'', size_bytes = 0, modify = []\<rparr>"
proof -
  have h: "length (split_max 8 ''total 12'') < 9" by code_simp
  have v: "list_entry ''total 12'' =
             Inr \<lparr>name = ''12'', type = ''file'', size_bytes = 0, modify = []\<rparr>"
    by code_simp
  show ?thesis by (rule conjI[OF h conjI[OF list_entry_short[OF h] v]])
qed

text \<open>The empty line has no token, and the entry made from it has the empty name.\<close>

theorem list_entry_empty_line:
  "length (split_max 8 []) < 9 \<and>
   list_entry [] = Inr \<lparr>name = [], type = ''file'', size_bytes = 0, modify = []\<rparr>"
  by code_simp

text \<open>
  Claim C6, as amended. A \<open>LIST\<close> line with nine tokens, whose fifth token has only ASCII
  digits, \<open>max_str_digits\<close> of them at most, when it is a digit string, gives an entry
  named by the ninth token, of type
  \<open>dir\<close> exactly when the first token starts with \<open>d\<close> and of type \<open>file\<close> otherwise. Its
  size is the decimal value of the fifth token when that is a digit string and 0 otherwise,
  and its date is the day, the month and the time or year, in this order, with one space
  between them.
\<close>

theorem list_entry_nine_tokens:
  assumes "9 \<le> length (split_max 8 line)"
    and "isdigit (split_max 8 line ! 4) \<longrightarrow>
           list_all is_ascii_digit (split_max 8 line ! 4) \<and>
           int (length (split_max 8 line ! 4)) \<le> max_str_digits"
  shows "length (split_max 8 line) = 9 \<and>
     (\<exists>e. list_entry line = Inr e \<and>
        name e = split_max 8 line ! 8 \<and>
        (type e = ''dir'' \<longleftrightarrow> hd (split_max 8 line ! 0) = CHR ''d'') \<and>
        (type e = ''file'' \<longleftrightarrow> hd (split_max 8 line ! 0) \<noteq> CHR ''d'') \<and>
        size_bytes e = (if isdigit (split_max 8 line ! 4)
                        then int (decimal (split_max 8 line ! 4)) else 0) \<and>
        modify e = split_max 8 line ! 6 @ '' '' @ split_max 8 line ! 5 @ '' '' @
                   split_max 8 line ! 7)"
proof -
  have "length (split_max 8 line) \<le> 9" using length_split[of 8 line] by simp
  with assms(1) have "length (split_max 8 line) = 9" by simp
  moreover from list_entry_nine[OF assms] obtain e where
    "list_entry line = Inr e" "name e = split_max 8 line ! 8"
    "type e = (if hd (split_max 8 line ! 0) = CHR ''d'' then ''dir'' else ''file'')"
    "size_bytes e = (if isdigit (split_max 8 line ! 4)
                     then int (decimal (split_max 8 line ! 4)) else 0)"
    "modify e = split_max 8 line ! 6 @ '' '' @ split_max 8 line ! 5 @ '' '' @
                split_max 8 line ! 7"
    by blast
  ultimately show ?thesis by auto
qed

theorem list_entry_nine_tokens_witness:
  "9 \<le> length (split_max 8 example_line) \<and>
   isdigit (split_max 8 example_line ! 4) \<and>
   list_all is_ascii_digit (split_max 8 example_line ! 4) \<and>
   int (length (split_max 8 example_line ! 4)) \<le> max_str_digits \<and>
   hd (split_max 8 example_line ! 0) = CHR ''d'' \<and>
   length (split_max 8 example_line) = 9 \<and>
   (\<exists>e. list_entry example_line = Inr e \<and>
      name e = split_max 8 example_line ! 8 \<and>
      (type e = ''dir'' \<longleftrightarrow> hd (split_max 8 example_line ! 0) = CHR ''d'') \<and>
      (type e = ''file'' \<longleftrightarrow> hd (split_max 8 example_line ! 0) \<noteq> CHR ''d'') \<and>
      size_bytes e = (if isdigit (split_max 8 example_line ! 4)
                      then int (decimal (split_max 8 example_line ! 4)) else 0) \<and>
      modify e = split_max 8 example_line ! 6 @ '' '' @ split_max 8 example_line ! 5 @ '' '' @
                 split_max 8 example_line ! 7)"
proof -
  have h1: "9 \<le> length (split_max 8 example_line)" by code_simp
  have d: "isdigit (split_max 8 example_line ! 4)" by code_simp
  have a: "list_all is_ascii_digit (split_max 8 example_line ! 4)" by code_simp
  have b: "int (length (split_max 8 example_line ! 4)) \<le> max_str_digits" by code_simp
  have c: "hd (split_max 8 example_line ! 0) = CHR ''d''" by code_simp
  have h2: "isdigit (split_max 8 example_line ! 4) \<longrightarrow>
      list_all is_ascii_digit (split_max 8 example_line ! 4) \<and>
      int (length (split_max 8 example_line ! 4)) \<le> max_str_digits"
    by (rule impI) (rule conjI[OF a b])
  show ?thesis
    by (rule conjI[OF h1 conjI[OF d conjI[OF a conjI[OF b conjI[OF c
          list_entry_nine_tokens[OF h1 h2]]]]]])
qed

text \<open>
  On a line of nine tokens the date is not the month, the day and the time joined
  together: the day comes first and the parts are separated by spaces.
\<close>

theorem list_entry_modify_order:
  "split_max 8 example_line =
     [''drwxr-xr-x'', ''2'', ''user'', ''group'', ''64'', ''Jan'', ''15'', ''12:00'', ''docs''] \<and>
   list_entry example_line =
     Inr \<lparr>name = ''docs'', type = ''dir'', size_bytes = 64, modify = ''15 Jan 12:00''\<rparr> \<and>
   ''15 Jan 12:00'' \<noteq> ''Jan'' @ ''15'' @ ''12:00''"
  by code_simp


section \<open>Downloads and connections\<close>

lemma reported_Nil: "reported r tot [] = []"
  by (simp add: reported_def)

lemma reported_Cons:
  "reported r tot (b # bs) = (r + int (length b), tot) # reported (r + int (length b)) tot bs"
proof -
  have "[0..<length (b # bs)] = 0 # map Suc [0..<length bs]"
    by (simp add: upt_conv_Cons map_Suc_upt del: upt_Suc)
  then show ?thesis by (simp add: reported_def o_def add.assoc)
qed

lemma retrbinary_writer:
  "retrbinary blocks (writer (Some record_progress) tot) st =
     st\<lparr>local_file := local_file st @ concat (received blocks),
        bytes_done := bytes_done st + int (length (concat (received blocks))),
        cb_state := cb_state st @ reported (bytes_done st) tot (received blocks)\<rparr>"
proof (induction blocks arbitrary: st)
  case Nil
  show ?case by (simp add: received_def reported_Nil)
next
  case (Cons b blocks)
  show ?case
  proof (cases "b = []")
    case True
    then show ?thesis by (simp add: received_def reported_Nil)
  next
    case False
    have r: "received (b # blocks) = b # received blocks" using False by (simp add: received_def)
    show ?thesis
      using False
      by (simp add: Cons.IH r reported_Cons)
         (simp add: writer_def record_progress_def Let_def add.assoc)
  qed
qed

lemma received_nonempty: "b \<in> set (received blocks) \<Longrightarrow> b \<noteq> []"
  by (auto simp: received_def dest: set_takeWhileD)

lemma reported_increasing:
  "\<forall>b\<in>set bs. b \<noteq> [] \<Longrightarrow> sorted_wrt (<) (r # map fst (reported r tot bs))"
proof (induction bs arbitrary: r)
  case Nil
  show ?case by (simp add: reported_Nil)
next
  case (Cons b bs)
  have "sorted_wrt (<) ((r + int (length b)) # map fst (reported (r + int (length b)) tot bs))"
    using Cons by simp
  moreover have "r < r + int (length b)" using Cons.prems by simp
  ultimately show ?case
    by (auto simp: reported_Cons)
qed

lemma reported_empty: "reported r tot bs = [] \<longleftrightarrow> bs = []"
  by (simp add: reported_def)

lemma reported_last:
  "bs \<noteq> [] \<Longrightarrow> last (reported r tot bs) = (r + int (length (concat bs)), tot)"
  by (induction bs arbitrary: r) (auto simp: reported_Cons reported_Nil reported_empty add.assoc)

lemma download_file_calls:
  assumes "ftp self = Some f"
  shows "download_file self remote_path local_path (Some record_progress) blocksize rest files [] =
     (let tot = (case size_reply f remote_path of Inl _ \<Rightarrow> None | Inr n \<Rightarrow> n);
          reply = retrbinary_reply f (''RETR '' @ remote_path) blocksize (if rest > 0 then Some rest else None);
          old = (if rest > 0 then (case files local_path of None \<Rightarrow> [] | Some b \<Rightarrow> b) else [])
      in (snd reply, files(local_path \<mapsto> old @ concat (received (fst reply))),
          reported rest tot (received (fst reply))))"
  using assms by (simp add: download_file_def retrbinary_writer Let_def)

lemma reported_length: "length (reported r tot bs) = length bs"
  by (simp add: reported_def)

lemma reported_total: "list_all (\<lambda>c. snd c = tot) (reported r tot bs)"
  by (simp add: reported_def list_all_iff)

lemma reported_sorted:
  "\<forall>b\<in>set bs. b \<noteq> [] \<Longrightarrow> sorted_wrt (<) (map fst (reported r tot bs))"
  using reported_increasing[of bs r tot] by simp


text \<open>
  Claim C9. The session holds one connection handle at most. \<open>connect\<close> first tears down the
  handle the session has: the \<open>QUIT\<close> on the old connection is the first thing it does, before
  it connects the new one. When \<open>connect\<close> raises, on the socket or on the login, the session
  is left with no handle; when it returns, the session holds the new handle. At no point
  does the session hold the old handle after \<open>connect\<close>.
\<close>

theorem connect_single:
  assumes "connect self remote host port user password log = (r, self', log')"
  shows "(ftp self' = None \<or> ftp self' = Some (remote host port user password)) \<and>
         (\<forall>e. r = Inl e \<longrightarrow> ftp self' = None) \<and>
         (r = Inr True \<longrightarrow> ftp self' = Some (remote host port user password)) \<and>
         (\<forall>old. ftp self = Some old \<longrightarrow>
            (\<exists>rest. log' = log @ Quit (conn_id old) # rest \<and>
               Connect (conn_id (remote host port user password)) \<in> set rest))"
  using assms
  by (auto simp: connect_def close_def Let_def split: option.splits prod.splits sum.splits)

theorem connect_single_witness:
  "connect \<lparr>ftp = Some example_ftp, current_path = ''/''\<rparr> example_remote
     ''ftp.example.com'' 21 ''anonymous'' ''wrong'' [] =
     (Inl error_perm, \<lparr>ftp = None, current_path = ''/''\<rparr>, [Quit 1, Connect 2, Login 2]) \<and>
   ftp \<lparr>ftp = None, current_path = ''/''\<rparr> = None \<and>
   (\<exists>rest. [Quit 1, Connect 2, Login 2] = [] @ Quit (conn_id example_ftp) # rest \<and>
      Connect (conn_id (example_remote ''ftp.example.com'' 21 ''anonymous'' ''wrong'')) \<in> set rest)"
proof -
  have h: "connect \<lparr>ftp = Some example_ftp, current_path = ''/''\<rparr> example_remote
     ''ftp.example.com'' 21 ''anonymous'' ''wrong'' [] =
     (Inl error_perm, \<lparr>ftp = None, current_path = ''/''\<rparr>, [Quit 1, Connect 2, Login 2])"
    by (simp add: connect_def close_def example_remote_def example_ftp_def Let_def)
  note t = connect_single[OF h]
  have a: "ftp \<lparr>ftp = None, current_path = ''/''\<rparr> = None"
    using t by blast
  have o: "ftp \<lparr>ftp = Some example_ftp, current_path = ''/''\<rparr> = Some example_ftp" by simp
  have b: "\<exists>rest. [Quit 1, Connect 2, Login 2] = [] @ Quit (conn_id example_ftp) # rest \<and>
      Connect (conn_id (example_remote ''ftp.example.com'' 21 ''anonymous'' ''wrong'')) \<in> set rest"
    using t o by blast
  show ?thesis by (rule conjI[OF h conjI[OF a b]])
qed


text \<open>
  Claim C7. With a callback that records its arguments, one \<open>download_file\<close> call invokes the
  callback once for each block received, and the byte counts it reports are strictly
  increasing. When the offset is 0, the server gives the size 300000 and 300000 bytes are
  received, the last count reported is 300000 and every invocation is given the total
  300000.
\<close>

theorem download_file_progress:
  assumes "ftp self = Some f"
    and "download_file self remote_path local_path (Some record_progress) blocksize rest files [] =
           (err, files', calls)"
  shows "length calls =
           length (received (fst (retrbinary_reply f (''RETR '' @ remote_path) blocksize
                                    (if rest > 0 then Some rest else None)))) \<and>
         sorted_wrt (<) (map fst calls) \<and>
         (rest = 0 \<and> size_reply f remote_path = Inr (Some 300000) \<and>
          length (concat (received (fst (retrbinary_reply f (''RETR '' @ remote_path) blocksize
                                          None)))) = 300000 \<longrightarrow>
            calls \<noteq> [] \<and> fst (last calls) = 300000 \<and>
            list_all (\<lambda>c. snd c = Some 300000) calls)"
proof -
  let ?tot = "case size_reply f remote_path of Inl _ \<Rightarrow> None | Inr n \<Rightarrow> n"
  let ?bs = "received (fst (retrbinary_reply f (''RETR '' @ remote_path) blocksize
                              (if rest > 0 then Some rest else None)))"
  have c: "calls = reported rest ?tot ?bs"
    using assms(2) by (simp add: download_file_calls[OF assms(1)] Let_def)
  have 1: "length calls = length ?bs" by (simp add: c reported_length)
  have 2: "sorted_wrt (<) (map fst calls)"
    unfolding c by (rule reported_sorted) (auto dest: received_nonempty)
  have 3: "calls \<noteq> [] \<and> fst (last calls) = 300000 \<and> list_all (\<lambda>c. snd c = Some 300000) calls"
    if h: "rest = 0" "size_reply f remote_path = Inr (Some 300000)"
      "length (concat (received (fst (retrbinary_reply f (''RETR '' @ remote_path) blocksize
                                          None)))) = 300000"
  proof -
    have ne: "?bs \<noteq> []" using h(1,3) by auto
    have t: "?tot = Some 300000" using h(2) by simp
    have "calls \<noteq> []" using ne by (simp add: c reported_empty)
    moreover have "fst (last calls) = 300000"
      unfolding c reported_last[OF ne] using h(1,3) by simp
    moreover have "list_all (\<lambda>c. snd c = Some 300000) calls"
      using reported_total[of ?tot rest ?bs] by (simp add: c t)
    ultimately show ?thesis by blast
  qed
  from 1 2 3 show ?thesis by blast
qed


theorem download_file_progress_witness:
  "ftp example_download_client = Some example_download_ftp \<and>
   size_reply example_download_ftp ''/pub/data.rar'' = Inr (Some 300000) \<and>
   length (concat (received (fst (retrbinary_reply example_download_ftp
      (''RETR '' @ ''/pub/data.rar'') 65536 None)))) = 300000 \<and>
   length (snd (snd (download_file example_download_client ''/pub/data.rar'' ''/tmp/data.rar''
      (Some record_progress) 65536 0 Map.empty []))) = 5 \<and>
   sorted_wrt (<) (map fst (snd (snd (download_file example_download_client ''/pub/data.rar''
      ''/tmp/data.rar'' (Some record_progress) 65536 0 Map.empty [])))) \<and>
   fst (last (snd (snd (download_file example_download_client ''/pub/data.rar''
      ''/tmp/data.rar'' (Some record_progress) 65536 0 Map.empty [])))) = 300000 \<and>
   list_all (\<lambda>c. snd c = Some 300000) (snd (snd (download_file example_download_client
      ''/pub/data.rar'' ''/tmp/data.rar'' (Some record_progress) 65536 0 Map.empty [])))"
proof -
  let ?X = "download_file example_download_client ''/pub/data.rar'' ''/tmp/data.rar''
      (Some record_progress) 65536 0 Map.empty []"
  have h1: "ftp example_download_client = Some example_download_ftp"
    by (simp add: example_download_client_def)
  have h2: "?X = (fst ?X, fst (snd ?X), snd (snd ?X))" by simp
  have s: "size_reply example_download_ftp ''/pub/data.rar'' = Inr (Some 300000)"
    by (simp add: example_download_ftp_def)
  have r: "received (fst (retrbinary_reply example_download_ftp
      (''RETR '' @ ''/pub/data.rar'') 65536 None)) = butlast example_blocks"
    by (simp add: example_download_ftp_def received_def example_blocks_def)
  have l: "length (concat (received (fst (retrbinary_reply example_download_ftp
      (''RETR '' @ ''/pub/data.rar'') 65536 None)))) = 300000"
    unfolding r by (simp add: example_blocks_def)
  have n: "length (received (fst (retrbinary_reply example_download_ftp
      (''RETR '' @ ''/pub/data.rar'') 65536 (if (0::int) > 0 then Some 0 else None)))) = 5"
    using r by (simp add: example_blocks_def)
  note t = download_file_progress[OF h1 h2]
  have a: "length (snd (snd ?X)) = 5" using conjunct1[OF t] n by simp
  have b: "sorted_wrt (<) (map fst (snd (snd ?X)))" by (rule conjunct1[OF conjunct2[OF t]])
  have c: "snd (snd ?X) \<noteq> [] \<and> fst (last (snd (snd ?X))) = 300000 \<and>
     list_all (\<lambda>c. snd c = Some 300000) (snd (snd ?X))"
    by (rule mp[OF conjunct2[OF conjunct2[OF t]] conjI[OF refl conjI[OF s l]]])
  show ?thesis
    by (rule conjI[OF h1 conjI[OF s conjI[OF l conjI[OF a conjI[OF b conjunct2[OF c]]]]]])
qed

text \<open>
  Claim C10. With an offset \<open>rest > 0\<close> the local file keeps its content and the received
  blocks are appended to it, and the \<open>k\<close>-th invocation of the callback reports \<open>rest\<close> plus
  the bytes of the first \<open>k\<close> blocks: the first one reports \<open>rest\<close> plus the length of the
  first block, and none reports only the bytes of this call.
\<close>

theorem download_file_resume:
  assumes "ftp self = Some f" and "0 < rest"
    and "retrbinary_reply f (''RETR '' @ remote_path) blocksize (Some rest) = (blocks, err)"
  shows "download_file self remote_path local_path (Some record_progress) blocksize rest files [] =
           (err,
            files(local_path \<mapsto>
              (case files local_path of None \<Rightarrow> [] | Some b \<Rightarrow> b) @ concat (received blocks)),
            map (\<lambda>k. (rest + int (length (concat (take (Suc k) (received blocks)))),
                      (case size_reply f remote_path of Inl _ \<Rightarrow> None | Inr n \<Rightarrow> n)))
                [0..<length (received blocks)])"
  using assms(2,3) by (simp add: download_file_calls[OF assms(1)] Let_def reported_def)

theorem download_file_resume_witness:
  "ftp example_resume_client = Some example_resume_ftp \<and>
   (0::int) < 4 \<and>
   retrbinary_reply example_resume_ftp (''RETR '' @ ''/pub/data.rar'') 65536 (Some 4) =
     ([''efg'', ''hij'', []], None) \<and>
   snd (snd (download_file example_resume_client ''/pub/data.rar'' ''/tmp/data.rar''
      (Some record_progress) 65536 4 [''/tmp/data.rar'' \<mapsto> ''abcd''] [])) =
     [(7, Some 10), (10, Some 10)] \<and>
   fst (snd (download_file example_resume_client ''/pub/data.rar'' ''/tmp/data.rar''
      (Some record_progress) 65536 4 [''/tmp/data.rar'' \<mapsto> ''abcd''] [])) ''/tmp/data.rar'' =
     Some ''abcdefghij''"
proof -
  have h1: "ftp example_resume_client = Some example_resume_ftp"
    by (simp add: example_resume_client_def)
  have h2: "(0::int) < 4" by simp
  have h3: "retrbinary_reply example_resume_ftp (''RETR '' @ ''/pub/data.rar'') 65536 (Some 4) =
     ([''efg'', ''hij'', []], None)"
    by (simp add: example_resume_ftp_def)
  have r: "received [''efg'', ''hij'', []] = [''efg'', ''hij'']" by (simp add: received_def)
  have u: "[0..<length [''efg'', ''hij'']] = [0, Suc 0]" by (simp add: upt_rec)
  have z: "size_reply example_resume_ftp ''/pub/data.rar'' = Inr (Some 10)"
    by (simp add: example_resume_ftp_def)
  note t = download_file_resume[OF h1 h2 h3, of "''/tmp/data.rar''" "[''/tmp/data.rar'' \<mapsto> ''abcd'']"]
  have a: "snd (snd (download_file example_resume_client ''/pub/data.rar'' ''/tmp/data.rar''
      (Some record_progress) 65536 4 [''/tmp/data.rar'' \<mapsto> ''abcd''] [])) =
     [(7, Some 10), (10, Some 10)]"
    unfolding t r u by (simp add: z)
  have b: "fst (snd (download_file example_resume_client ''/pub/data.rar'' ''/tmp/data.rar''
      (Some record_progress) 65536 4 [''/tmp/data.rar'' \<mapsto> ''abcd''] [])) ''/tmp/data.rar'' =
     Some ''abcdefghij''"
    unfolding t r by simp
  show ?thesis by (rule conjI[OF h1 conjI[OF h2 conjI[OF h3 conjI[OF a b]]]])
qed

section \<open>Traversal guard and overwrite\<close>

subsection \<open>Members that fail the containment check\<close>

lemma extract_rar_append:
  "extract_rar d ow (xs @ ys) fs =
     (case extract_rar d ow xs fs of
        (Some e, fs1) \<Rightarrow> (Some e, fs1)
      | (None, fs1) \<Rightarrow> extract_rar d ow ys fs1)"
  by (induction xs arbitrary: fs) (auto split: prod.splits option.splits)

lemma extract_member_unsafe:
  "\<not> guard_ok d m \<Longrightarrow> extract_member d ow m fs = (Some (UnsafePath (filename m)), fs)"
  by (simp add: extract_member_def)

text \<open>
  Claim C2. When the members before \<open>m\<close> have been processed without an error, leaving the
  file system \<open>fs1\<close>, and the containment check of \<open>m\<close> fails, the call ends with
  \<open>UnsafePath\<close> naming \<open>m\<close>, whatever members follow it: none of them is processed, and
  the file system is \<open>fs1\<close>, so everything the earlier members wrote is still there.
\<close>

theorem extract_rar_abort:
  assumes "extract_rar d ow pre fs = (None, fs1)" and "\<not> guard_ok d m"
  shows "extract_rar d ow (pre @ m # post) fs = (Some (UnsafePath (filename m)), fs1)"
  using assms by (simp add: extract_rar_append extract_member_unsafe)

theorem extract_rar_abort_witness:
  "extract_rar example_dest True [member_foo] example_fs =
     (None, snd (extract_rar example_dest True [member_foo] example_fs)) \<and>
   \<not> guard_ok example_dest member_passwd \<and>
   extract_rar example_dest True ([member_foo] @ member_passwd # [member_deep]) example_fs =
     (Some (UnsafePath (filename member_passwd)),
      snd (extract_rar example_dest True [member_foo] example_fs)) \<and>
   snd (extract_rar example_dest True [member_foo] example_fs) [''tmp'', ''out'', ''foo.txt''] =
     Some (File ''new'')"
proof -
  have f: "fst (extract_rar example_dest True [member_foo] example_fs) = None" by code_simp
  have h1: "extract_rar example_dest True [member_foo] example_fs =
     (None, snd (extract_rar example_dest True [member_foo] example_fs))"
    by (rule prod_eqI) (simp_all only: f fst_conv snd_conv)
  have h2: "\<not> guard_ok example_dest member_passwd" by code_simp
  have w: "snd (extract_rar example_dest True [member_foo] example_fs)
      [''tmp'', ''out'', ''foo.txt''] = Some (File ''new'')"
    by code_simp
  show ?thesis by (rule conjI[OF h1 conjI[OF h2 conjI[OF extract_rar_abort[OF h1 h2] w]]])
qed

text \<open>
  Claim C1, as amended. When some member of the archive fails the containment check, the call
  does not succeed. At the first such member \<open>x\<close> it ends with \<open>UnsafePath\<close> naming
  \<open>x\<close>, unless an earlier member has already ended it with another error; in both cases
  the file system is the one the members before \<open>x\<close> have left, so nothing is written for
  \<open>x\<close> or for any member after it, and what the members before it wrote stays.
\<close>

theorem extract_rar_unsafe_member:
  assumes "m \<in> set ms" and "\<not> guard_ok d m"
  shows "fst (extract_rar d ow ms fs) \<noteq> None \<and>
         (\<exists>pre x post. ms = pre @ x # post \<and> (\<forall>y\<in>set pre. guard_ok d y) \<and> \<not> guard_ok d x \<and>
            extract_rar d ow ms fs =
              (case extract_rar d ow pre fs of
                 (Some e, fs1) \<Rightarrow> (Some e, fs1)
               | (None, fs1) \<Rightarrow> (Some (UnsafePath (filename x)), fs1)))"
proof -
  from assms have "\<exists>x\<in>set ms. \<not> guard_ok d x" by blast
  then obtain pre x post where s: "ms = pre @ x # post" "\<not> guard_ok d x" "\<forall>y\<in>set pre. \<not> \<not> guard_ok d y"
    by (auto dest!: split_list_first_prop)
  have e: "extract_rar d ow ms fs =
              (case extract_rar d ow pre fs of
                 (Some e, fs1) \<Rightarrow> (Some e, fs1)
               | (None, fs1) \<Rightarrow> (Some (UnsafePath (filename x)), fs1))"
    using s(2) by (simp add: s(1) extract_rar_append extract_member_unsafe split: prod.splits option.splits)
  then have "fst (extract_rar d ow ms fs) \<noteq> None"
    by (auto split: prod.splits option.splits)
  with s e show ?thesis by blast
qed

theorem extract_rar_unsafe_member_witness:
  "member_passwd \<in> set [member_foo, member_passwd] \<and>
   \<not> guard_ok example_dest member_passwd \<and>
   fst (extract_rar example_dest True [member_foo, member_passwd] example_fs) \<noteq> None \<and>
   (\<exists>pre x post. [member_foo, member_passwd] = pre @ x # post \<and>
      (\<forall>y\<in>set pre. guard_ok example_dest y) \<and> \<not> guard_ok example_dest x \<and>
      extract_rar example_dest True [member_foo, member_passwd] example_fs =
        (case extract_rar example_dest True pre example_fs of
           (Some e, fs1) \<Rightarrow> (Some e, fs1)
         | (None, fs1) \<Rightarrow> (Some (UnsafePath (filename x)), fs1)))"
proof -
  have h1: "member_passwd \<in> set [member_foo, member_passwd]" by simp
  have h2: "\<not> guard_ok example_dest member_passwd" by code_simp
  show ?thesis by (rule conjI[OF h1 conjI[OF h2 extract_rar_unsafe_member[OF h1 h2]]])
qed

text \<open>
  The archive with \<open>foo.txt\<close> followed by \<open>../../etc/passwd\<close>, extracted into
  \<open>/tmp/out\<close>: the second member resolves outside the destination and the call ends with
  \<open>UnsafePath\<close>, yet \<open>foo.txt\<close>, which was not there before, has been written by
  that call.
\<close>

theorem extract_rar_earlier_member_written:
  "\<not> prefix (resolve example_dest)
       (resolve (example_dest @ name_parts (filename member_passwd))) \<and>
   fst (extract_rar example_dest True [member_foo, member_passwd] example_fs) =
     Some (UnsafePath ''../../etc/passwd'') \<and>
   example_fs [''tmp'', ''out'', ''foo.txt''] = None \<and>
   snd (extract_rar example_dest True [member_foo, member_passwd] example_fs)
     [''tmp'', ''out'', ''foo.txt''] = Some (File ''new'')"
  by code_simp

text \<open>
  The containment check compares the two paths as strings. A member \<open>../outside/x\<close>
  extracted into \<open>/tmp/out\<close> has the parent \<open>/tmp/outside\<close>, whose string starts
  with \<open>/tmp/out\<close>: the check lets it through although it lies outside the destination,
  and the directory \<open>/tmp/outside\<close> is created for it.
\<close>

lemma extract_rar_sibling_directory:
  "\<not> prefix (resolve example_dest)
       (resolve (example_dest @ name_parts (filename member_sibling))) \<and>
   guard_ok example_dest member_sibling \<and>
   fst (extract_rar example_dest True [member_sibling] example_fs) = None \<and>
   snd (extract_rar example_dest True [member_sibling] example_fs) [''tmp'', ''outside''] =
     Some Dir"
  by code_simp

text \<open>
  The test for an existing file follows the member's own path, in which \<open>..\<close> steps up,
  while the library writes at the sanitised name, in which \<open>..\<close> is dropped. Extracting
  \<open>a/../bar.txt\<close> without overwrite into a destination that holds \<open>a/bar.txt\<close> finds
  no \<open>bar.txt\<close>, and \<open>a/bar.txt\<close> is replaced.
\<close>

lemma extract_rar_sanitised_name:
  "guard_ok example_dest member_bar \<and>
   example_fs_bar [''tmp'', ''out'', ''a'', ''bar.txt''] = Some (File ''old'') \<and>
   \<not> exists_path example_fs_bar (example_dest @ name_parts (filename member_bar)) \<and>
   fst (extract_rar example_dest False [member_bar] example_fs_bar) = None \<and>
   snd (extract_rar example_dest False [member_bar] example_fs_bar)
     [''tmp'', ''out'', ''a'', ''bar.txt''] = Some (File ''new'') \<and>
   snd (extract_rar example_dest False [member_bar] example_fs_bar)
     [''tmp'', ''out'', ''bar.txt''] = None"
  by code_simp

subsection \<open>Existing files without overwrite\<close>










end
